theory Spec2Isabelle
  imports Complex_Main "HOL-Library.AList"
begin

section \<open>Decoded JSON values and the Python operations the code applies to them\<close>

text \<open>
  Every value the service handles comes out of a JSON decoder: the request body, the
  assistant's tool-call arguments, the remote endpoint's response body and the two
  persisted files. A decoded object is an association list in insertion order; the keys
  of a decoded object are distinct, and lookup is \<open>map_of\<close>.

  The type parameter \<open>'f\<close> is Python's \<open>float\<close>. Its arithmetic and the builtin
  conversions \<open>float()\<close>, \<open>int()\<close> and \<open>round()\<close> belong to the Python runtime, not to
  the repository, so they are a parameter of the model (record \<open>pyrt\<close> below); no
  theorem uses an algebraic law of floats.
\<close>

datatype py_error =
    TypeError | ValueError | KeyError | OverflowError | AttributeError
  | AssistantError | TransportError

datatype 'f json =
    JNull
  | JBool bool
  | JInt int
  | JFloat 'f
  | JStr string
  | JArr "'f json list"
  | JObj "(string \<times> 'f json) list"

record 'f pyrt =
  flt_of_int :: "int \<Rightarrow> py_error + 'f"
  flt_of_str :: "string \<Rightarrow> py_error + 'f"
  int_of_flt :: "'f \<Rightarrow> py_error + int"
  int_of_str :: "string \<Rightarrow> py_error + int"
  flt_as_int :: "'f \<Rightarrow> int option"
  flt_zero :: "'f"
  flt_add :: "'f \<Rightarrow> 'f \<Rightarrow> 'f"
  flt_sub :: "'f \<Rightarrow> 'f \<Rightarrow> 'f"
  flt_mul :: "'f \<Rightarrow> 'f \<Rightarrow> 'f"
  flt_round4 :: "'f \<Rightarrow> 'f"

text \<open>
  \<open>flt_of_int n\<close> is \<open>float(n)\<close> (OverflowError on an integer too large),
  \<open>flt_of_str s\<close> is \<open>float(s)\<close> (ValueError on a string that is no number),
  \<open>int_of_flt x\<close> is \<open>int(x)\<close>, truncation toward zero (OverflowError on an infinity,
  ValueError on a NaN), \<open>int_of_str s\<close> is \<open>int(s)\<close>, \<open>flt_as_int x\<close> is the integer a
  float equals exactly (Python's dictionaries identify the keys \<open>1\<close>, \<open>1.0\<close> and
  \<open>True\<close>), \<open>flt_zero\<close> is \<open>0.0\<close> and \<open>flt_round4 x\<close> is \<open>round(x, 4)\<close>.
\<close>

definition bool_int :: "bool \<Rightarrow> int" where
  "bool_int b = (if b then 1 else 0)"

text \<open>\<open>float(v)\<close> and \<open>int(v)\<close> on a decoded value; \<open>bool\<close> is a subclass of \<open>int\<close>.\<close>

fun py_float :: "'f pyrt \<Rightarrow> 'f json \<Rightarrow> py_error + 'f" where
  "py_float rt (JFloat x) = Inr x"
| "py_float rt (JInt n) = flt_of_int rt n"
| "py_float rt (JBool b) = flt_of_int rt (bool_int b)"
| "py_float rt (JStr s) = flt_of_str rt s"
| "py_float rt JNull = Inl TypeError"
| "py_float rt (JArr xs) = Inl TypeError"
| "py_float rt (JObj kvs) = Inl TypeError"

fun py_int :: "'f pyrt \<Rightarrow> 'f json \<Rightarrow> py_error + int" where
  "py_int rt (JInt n) = Inr n"
| "py_int rt (JFloat x) = int_of_flt rt x"
| "py_int rt (JBool b) = Inr (bool_int b)"
| "py_int rt (JStr s) = int_of_str rt s"
| "py_int rt JNull = Inl TypeError"
| "py_int rt (JArr xs) = Inl TypeError"
| "py_int rt (JObj kvs) = Inl TypeError"

text \<open>\<open>float * int\<close>: the integer operand is converted to a float first.\<close>

definition flt_mul_int :: "'f pyrt \<Rightarrow> 'f \<Rightarrow> int \<Rightarrow> py_error + 'f" where
  "flt_mul_int rt x n =
     (case flt_of_int rt n of Inl e \<Rightarrow> Inl e | Inr y \<Rightarrow> Inr (flt_mul rt x y))"

text \<open>\<open>v[k]\<close> with a string key \<open>k\<close>: KeyError on an object without the key, TypeError
  on every other value.\<close>

fun subscript :: "'f json \<Rightarrow> string \<Rightarrow> py_error + 'f json" where
  "subscript (JObj kvs) k = (case map_of kvs k of None \<Rightarrow> Inl KeyError | Some v \<Rightarrow> Inr v)"
| "subscript v k = Inl TypeError"

text \<open>\<open>v.get(k, default)\<close>: only an object has the method.\<close>

fun py_get :: "'f json \<Rightarrow> string \<Rightarrow> 'f json \<Rightarrow> py_error + 'f json" where
  "py_get (JObj kvs) k d = (case map_of kvs k of None \<Rightarrow> Inr d | Some v \<Rightarrow> Inr v)"
| "py_get v k d = Inl AttributeError"

text \<open>\<open>for x in v\<close>: a list yields its elements, an object its keys, a string its
  characters; nothing else is iterable.\<close>

fun py_iter :: "'f json \<Rightarrow> py_error + 'f json list" where
  "py_iter (JArr xs) = Inr xs"
| "py_iter (JObj kvs) = Inr (map (\<lambda>kv. JStr (fst kv)) kvs)"
| "py_iter (JStr s) = Inr (map (\<lambda>c. JStr [c]) s)"
| "py_iter v = Inl TypeError"

fun is_dict :: "'f json \<Rightarrow> bool" where
  "is_dict (JObj kvs) = True"
| "is_dict v = False"

fun is_list :: "'f json \<Rightarrow> bool" where
  "is_list (JArr xs) = True"
| "is_list v = False"

fun is_str :: "'f json \<Rightarrow> bool" where
  "is_str (JStr s) = True"
| "is_str v = False"

text \<open>\<open>k in d\<close> for an object \<open>d\<close>; the code applies it to objects only.\<close>

fun has_key :: "'f json \<Rightarrow> string \<Rightarrow> bool" where
  "has_key (JObj kvs) k = (map_of kvs k \<noteq> None)"
| "has_key v k = False"

text \<open>
  Dictionary keys. A list or an object is unhashable (TypeError); numbers are compared
  by value across \<open>bool\<close>, \<open>int\<close> and \<open>float\<close>; a string equals only the same string.
\<close>

datatype 'f key = KNone | KInt int | KFlt 'f | KStr string

fun dict_key :: "'f pyrt \<Rightarrow> 'f json \<Rightarrow> py_error + 'f key" where
  "dict_key rt JNull = Inr KNone"
| "dict_key rt (JBool b) = Inr (KInt (bool_int b))"
| "dict_key rt (JInt n) = Inr (KInt n)"
| "dict_key rt (JFloat x) = (case flt_as_int rt x of Some n \<Rightarrow> Inr (KInt n) | None \<Rightarrow> Inr (KFlt x))"
| "dict_key rt (JStr s) = Inr (KStr s)"
| "dict_key rt (JArr xs) = Inl TypeError"
| "dict_key rt (JObj kvs) = Inl TypeError"

text \<open>Decimal rendering of an index or a status code inside an f-string.\<close>

definition digit_char :: "nat \<Rightarrow> char" where
  "digit_char d = char_of (48 + d)"

function str_nat :: "nat \<Rightarrow> string" where
  "str_nat n = (if n < 10 then [digit_char n] else str_nat (n div 10) @ [digit_char (n mod 10)])"
  by pat_completeness auto
termination
  by (relation "measure (\<lambda>n. n)") auto

declare str_nat.simps [simp del]

definition str_int :: "int \<Rightarrow> string" where
  "str_int i = (if i < 0 then CHR ''-'' # str_nat (nat (- i)) else str_nat (nat i))"

section \<open>validators.py\<close>

text \<open>The inner loop \<open>for field in (...): if field not in row: return ...\<close>:
  the first required field the row lacks.\<close>

definition missing_field :: "string list \<Rightarrow> 'f json \<Rightarrow> string option" where
  "missing_field required row = find (\<lambda>f. \<not> has_key row f) required"

text \<open>The loop over \<open>required_lists\<close> (lines 20-25): per key, presence first, then the
  list check.\<close>

fun check_required :: "string list \<Rightarrow> 'f json \<Rightarrow> string option" where
  "check_required [] payload = None"
| "check_required (key # keys) payload =
     (if \<not> has_key payload key then Some (''Missing required field: '' @ key)
      else if \<not> (case subscript payload key of Inr v \<Rightarrow> is_list v | Inl e \<Rightarrow> False)
        then Some (key @ '' must be a list'')
      else check_required keys payload)"

text \<open>The three \<open>enumerate\<close> loops (lines 28-52) have one shape: the row must be an
  object, then hold each required field; the \<open>market_history\<close> loop checks \<open>day\<close> after
  that. \<open>check_rows\<close> is that shape, \<open>idx\<close> the running index.\<close>

fun check_rows ::
  "string \<Rightarrow> string list \<Rightarrow> ('f json \<Rightarrow> string option) \<Rightarrow> nat \<Rightarrow> 'f json list \<Rightarrow> string option"
where
  "check_rows name required extra idx [] = None"
| "check_rows name required extra idx (row # rows) =
     (if \<not> is_dict row
        then Some (name @ ''['' @ str_nat idx @ ''] must be an object'')
      else case missing_field required row of
        Some field \<Rightarrow>
          Some (name @ ''['' @ str_nat idx @ ''] missing '' @ [CHR 0x27] @ field @ [CHR 0x27])
      | None \<Rightarrow>
          (case extra row of
             Some msg \<Rightarrow> Some msg
           | None \<Rightarrow> check_rows name required extra (Suc idx) rows))"

definition no_extra :: "'f json \<Rightarrow> string option" where
  "no_extra row = None"

definition day_is_str :: "'f json \<Rightarrow> string option" where
  "day_is_str row =
     (case subscript row ''day'' of
        Inr d \<Rightarrow> if is_str d then None else Some ''market_history.day must be a date string''
      | Inl e \<Rightarrow> Some ''market_history.day must be a date string'')"

text \<open>The list under a key that \<open>check_required\<close> has already seen to be a list.\<close>

definition rows_of :: "'f json \<Rightarrow> string \<Rightarrow> 'f json list" where
  "rows_of payload key = (case subscript payload key of Inr (JArr xs) \<Rightarrow> xs | _ \<Rightarrow> [])"

definition validate_tick_payload :: "'f json \<Rightarrow> bool \<times> string" where
  "validate_tick_payload payload =
     (if \<not> is_dict payload then (False, ''Payload must be a JSON object'')
      else case check_required [''Positions'', ''Market_Summary'', ''market_history''] payload of
        Some msg \<Rightarrow> (False, msg)
      | None \<Rightarrow>
      (case check_rows ''Positions'' [''ticker'', ''quantity'', ''purchase_price''] no_extra 0
              (rows_of payload ''Positions'') of
        Some msg \<Rightarrow> (False, msg)
      | None \<Rightarrow>
      (case check_rows ''Market_Summary'' [''ticker'', ''current_price'', ''category''] no_extra 0
              (rows_of payload ''Market_Summary'') of
        Some msg \<Rightarrow> (False, msg)
      | None \<Rightarrow>
      (case check_rows ''market_history'' [''ticker'', ''price'', ''day''] day_is_str 0
              (rows_of payload ''market_history'') of
        Some msg \<Rightarrow> (False, msg)
      | None \<Rightarrow> (True, ''OK'')))))"

section \<open>business.py: the persistence store\<close>

text \<open>
  The two files, and all that is observable of a tick from outside: the file contents
  and the order of its external effects (\<open>trace\<close>, oldest first). A file is absent,
  present but not decodable as JSON, or holds a JSON document. \<open>json.dump\<close> followed by
  \<open>json.load\<close> gives the value back; the operating system's own failures (a full disk,
  a file without write permission) are outside the model.
\<close>

datatype path = POSITIONS_FILE | TRADES_FILE

datatype 'f stored = Absent | Undecodable | Document "'f json"

datatype 'f event =
    Wrote path "'f json list"
  | Consulted_assistant
  | Posted string "'f json list"

record 'f world =
  files :: "path \<Rightarrow> 'f stored"
  trace :: "'f event list"

definition log_event :: "'f event \<Rightarrow> 'f world \<Rightarrow> 'f world" where
  "log_event ev w = w\<lparr>trace := trace w @ [ev]\<rparr>"

fun decode_list :: "'f stored \<Rightarrow> 'f json list" where
  "decode_list Absent = []"
| "decode_list Undecodable = []"
| "decode_list (Document (JArr xs)) = xs"
| "decode_list (Document v) = []"

definition read_json_list :: "path \<Rightarrow> 'f world \<Rightarrow> 'f json list" where
  "read_json_list p w = decode_list (files w p)"

definition write_json_list :: "path \<Rightarrow> 'f json list \<Rightarrow> 'f world \<Rightarrow> 'f world" where
  "write_json_list p data w =
     log_event (Wrote p data) (w\<lparr>files := (files w)(p := Document (JArr data))\<rparr>)"

definition append_trade_log :: "'f json list \<Rightarrow> 'f json \<Rightarrow> 'f world \<Rightarrow> 'f world" where
  "append_trade_log trade_recs rationale w =
     (let history = read_json_list TRADES_FILE w;
          entry = JObj [(''ai_recommendations'', JArr trade_recs), (''rationale'', rationale)]
      in write_json_list TRADES_FILE (history @ [entry]) w)"

definition load_dashboard_data :: "'f world \<Rightarrow> 'f json list \<times> 'f json list" where
  "load_dashboard_data w = (read_json_list POSITIONS_FILE w, read_json_list TRADES_FILE w)"

section \<open>business.py: prices, profit and loss, snapshots\<close>

text \<open>The comprehension \<open>{m["ticker"]: float(m["current_price"]) for m in market_summary}\<close>
  (lines 34, 99 and 132): per row the key expression, then the value expression, then
  the insertion, which hashes the key. A later row overwrites an earlier one.\<close>

fun price_rows ::
  "'f pyrt \<Rightarrow> 'f json list \<Rightarrow> ('f key \<rightharpoonup> 'f) \<Rightarrow> py_error + ('f key \<rightharpoonup> 'f)"
where
  "price_rows rt [] d = Inr d"
| "price_rows rt (m # ms) d =
     (case subscript m ''ticker'' of Inl e \<Rightarrow> Inl e | Inr ticker \<Rightarrow>
      (case subscript m ''current_price'' of Inl e \<Rightarrow> Inl e | Inr cp \<Rightarrow>
      (case py_float rt cp of Inl e \<Rightarrow> Inl e | Inr price \<Rightarrow>
      (case dict_key rt ticker of Inl e \<Rightarrow> Inl e | Inr k \<Rightarrow>
        price_rows rt ms (d(k \<mapsto> price))))))"

definition price_by_ticker :: "'f pyrt \<Rightarrow> 'f json \<Rightarrow> py_error + ('f key \<rightharpoonup> 'f)" where
  "price_by_ticker rt market_summary =
     (case py_iter market_summary of Inl e \<Rightarrow> Inl e | Inr ms \<Rightarrow> price_rows rt ms Map.empty)"

text \<open>The loop of \<open>analyze_tick\<close>, lines 101-111. The three reads and coercions come
  before the membership test, so they run for an unmatched position too.\<close>

fun pnl_loop ::
  "'f pyrt \<Rightarrow> ('f key \<rightharpoonup> 'f) \<Rightarrow> 'f json list \<Rightarrow> int \<Rightarrow> 'f \<Rightarrow> py_error + (int \<times> 'f)"
where
  "pnl_loop rt prices [] evaluated total_unrealized = Inr (evaluated, total_unrealized)"
| "pnl_loop rt prices (pos # rest) evaluated total_unrealized =
     (case subscript pos ''ticker'' of Inl e \<Rightarrow> Inl e | Inr ticker \<Rightarrow>
      (case subscript pos ''quantity'' of Inl e \<Rightarrow> Inl e | Inr q \<Rightarrow>
      (case py_int rt q of Inl e \<Rightarrow> Inl e | Inr qty \<Rightarrow>
      (case subscript pos ''purchase_price'' of Inl e \<Rightarrow> Inl e | Inr pp \<Rightarrow>
      (case py_float rt pp of Inl e \<Rightarrow> Inl e | Inr purchase_price \<Rightarrow>
      (case dict_key rt ticker of Inl e \<Rightarrow> Inl e | Inr k \<Rightarrow>
      (case prices k of
        None \<Rightarrow> pnl_loop rt prices rest evaluated total_unrealized
      | Some current \<Rightarrow>
         (case flt_mul_int rt (flt_sub rt current purchase_price) qty of Inl e \<Rightarrow> Inl e | Inr pnl \<Rightarrow>
            pnl_loop rt prices rest (evaluated + 1) (flt_add rt total_unrealized pnl)))))))))"

text \<open>\<open>_build_positions_snapshot\<close>, lines 33-49.\<close>

definition current_price_of :: "('f key \<rightharpoonup> 'f) \<Rightarrow> 'f key \<Rightarrow> 'f json" where
  "current_price_of prices k = (case prices k of None \<Rightarrow> JNull | Some c \<Rightarrow> JFloat c)"

definition position_record :: "'f json \<Rightarrow> int \<Rightarrow> 'f \<Rightarrow> 'f json \<Rightarrow> 'f json" where
  "position_record ticker qty purchase_price current_price =
     JObj [(''ticker'', ticker), (''quantity'', JInt qty),
           (''purchase_price'', JFloat purchase_price), (''current_price'', current_price)]"

fun snapshot_rows ::
  "'f pyrt \<Rightarrow> ('f key \<rightharpoonup> 'f) \<Rightarrow> 'f json list \<Rightarrow> py_error + 'f json list"
where
  "snapshot_rows rt prices [] = Inr []"
| "snapshot_rows rt prices (pos # rest) =
     (case subscript pos ''ticker'' of Inl e \<Rightarrow> Inl e | Inr ticker \<Rightarrow>
      (case subscript pos ''quantity'' of Inl e \<Rightarrow> Inl e | Inr q \<Rightarrow>
      (case py_int rt q of Inl e \<Rightarrow> Inl e | Inr qty \<Rightarrow>
      (case subscript pos ''purchase_price'' of Inl e \<Rightarrow> Inl e | Inr pp \<Rightarrow>
      (case py_float rt pp of Inl e \<Rightarrow> Inl e | Inr purchase_price \<Rightarrow>
      (case dict_key rt ticker of Inl e \<Rightarrow> Inl e | Inr k \<Rightarrow>
      (case snapshot_rows rt prices rest of Inl e \<Rightarrow> Inl e | Inr snapshot \<Rightarrow>
        Inr (position_record ticker qty purchase_price (current_price_of prices k) # snapshot))))))))"

definition build_positions_snapshot ::
  "'f pyrt \<Rightarrow> 'f json \<Rightarrow> 'f json \<Rightarrow> py_error + 'f json list"
where
  "build_positions_snapshot rt positions market_summary =
     (case price_by_ticker rt market_summary of Inl e \<Rightarrow> Inl e | Inr prices \<Rightarrow>
      (case py_iter positions of Inl e \<Rightarrow> Inl e | Inr ps \<Rightarrow>
        snapshot_rows rt prices ps))"

text \<open>The loop of \<open>analyze_tick\<close>, lines 133-141, over the positions the remote endpoint
  returned: the price lookup comes first, then the three fields of the record.\<close>

fun merge_rows ::
  "'f pyrt \<Rightarrow> ('f key \<rightharpoonup> 'f) \<Rightarrow> 'f json list \<Rightarrow> py_error + 'f json list"
where
  "merge_rows rt prices [] = Inr []"
| "merge_rows rt prices (p # rest) =
     (case subscript p ''ticker'' of Inl e \<Rightarrow> Inl e | Inr ticker \<Rightarrow>
      (case dict_key rt ticker of Inl e \<Rightarrow> Inl e | Inr k \<Rightarrow>
      (case subscript p ''quantity'' of Inl e \<Rightarrow> Inl e | Inr q \<Rightarrow>
      (case py_int rt q of Inl e \<Rightarrow> Inl e | Inr qty \<Rightarrow>
      (case subscript p ''purchase_price'' of Inl e \<Rightarrow> Inl e | Inr pp \<Rightarrow>
      (case py_float rt pp of Inl e \<Rightarrow> Inl e | Inr purchase_price \<Rightarrow>
      (case merge_rows rt prices rest of Inl e \<Rightarrow> Inl e | Inr merged \<Rightarrow>
        Inr (position_record ticker qty purchase_price (current_price_of prices k) # merged))))))))"

section \<open>ai.py: the recommendation client\<close>

text \<open>
  The assistant is an external service; what it does on one call is a parameter:
  constructing the client raises (\<open>Client_fails\<close>), the call raises or its response has
  no \<open>output[0].content[0]\<close> (\<open>Call_fails\<close>), the first content item has no tool
  call (\<open>No_tool_calls\<close>), or the first tool call carries an \<open>arguments\<close> string that
  \<open>json.loads\<close> decodes (\<open>Tool_arguments (Some v)\<close>) or rejects (\<open>Tool_arguments None\<close>).
\<close>

datatype 'f ai_outcome =
    Client_fails
  | Call_fails
  | No_tool_calls
  | Tool_arguments "'f json option"

record 'f recommendation =
  trades :: "'f json list"
  rationale :: "'f json"

text \<open>One element of the comprehension of \<open>_fallback_trades\<close>: the filter
  \<open>isinstance(p, dict) and "ticker" in p\<close> and the trade built from \<open>p.get("ticker")\<close>.\<close>

fun stay_trade :: "'f json \<Rightarrow> 'f json option" where
  "stay_trade (JObj kvs) =
     (case map_of kvs ''ticker'' of
        None \<Rightarrow> None
      | Some t \<Rightarrow> Some (JObj [(''action'', JStr ''STAY''), (''ticker'', t), (''quantity'', JInt 0)]))"
| "stay_trade p = None"

definition fallback_rationale :: string where
  "fallback_rationale = ''Fallback: STAY on all positions because AI was unavailable.''"

definition fallback_trades :: "'f json \<Rightarrow> py_error + 'f recommendation" where
  "fallback_trades tick_payload =
     (case py_get tick_payload ''Positions'' (JArr []) of Inl e \<Rightarrow> Inl e | Inr positions \<Rightarrow>
      (case py_iter positions of Inl e \<Rightarrow> Inl e | Inr ps \<Rightarrow>
        Inr \<lparr>trades = List.map_filter stay_trade ps, rationale = JStr fallback_rationale\<rparr>))"

text \<open>\<open>_build_user_message\<close>: its text goes to the assistant and nowhere else, and the
  assistant's reply is a parameter, so the model keeps what the function can raise: the
  three \<open>get\<close> calls on the payload and the iteration over the positions. Formatting a
  decoded value and joining strings raise nothing.\<close>

definition build_user_message :: "'f json \<Rightarrow> py_error + unit" where
  "build_user_message tick_payload =
     (case py_get tick_payload ''Positions'' (JArr []) of Inl e \<Rightarrow> Inl e | Inr positions \<Rightarrow>
      (case py_get tick_payload ''Prices'' (JObj []) of Inl e \<Rightarrow> Inl e | Inr prices \<Rightarrow>
      (case py_get tick_payload ''News'' (JStr []) of Inl e \<Rightarrow> Inl e | Inr news \<Rightarrow>
      (case py_iter positions of Inl e \<Rightarrow> Inl e | Inr ps \<Rightarrow> Inr ()))))"

text \<open>The body of the \<open>try\<close> block, lines 142-177. \<open>Inr None\<close> is one of its two
  \<open>return _fallback_trades(...)\<close>; \<open>Inl e\<close> is an exception, which the \<open>except\<close> clause
  turns into the fallback as well.\<close>

definition read_tool_args :: "'f json \<Rightarrow> py_error + 'f recommendation option" where
  "read_tool_args tool_args =
     (case py_get tool_args ''trades'' (JArr []) of Inl e \<Rightarrow> Inl e | Inr trs \<Rightarrow>
      (case py_get tool_args ''rationale'' (JStr ''No rationale provided.'') of Inl e \<Rightarrow> Inl e | Inr r \<Rightarrow>
        (case trs of
           JArr xs \<Rightarrow> Inr (Some \<lparr>trades = xs, rationale = r\<rparr>)
         | _ \<Rightarrow> Inr None)))"

fun try_assistant :: "'f ai_outcome \<Rightarrow> py_error + 'f recommendation option" where
  "try_assistant Client_fails = Inl AssistantError"
| "try_assistant Call_fails = Inl AssistantError"
| "try_assistant No_tool_calls = Inr None"
| "try_assistant (Tool_arguments None) = Inl ValueError"
| "try_assistant (Tool_arguments (Some tool_args)) = read_tool_args tool_args"

text \<open>\<open>not API_KEY\<close>: the environment holds no key, or an empty one.\<close>

definition no_credential :: "string option \<Rightarrow> bool" where
  "no_credential api_key = (api_key = None \<or> api_key = Some [])"

definition get_trade_recommendations ::
  "string option \<Rightarrow> 'f ai_outcome \<Rightarrow> 'f json \<Rightarrow> py_error + 'f recommendation"
where
  "get_trade_recommendations api_key ai tick_payload =
     (if no_credential api_key then fallback_trades tick_payload
      else if ai = Client_fails then fallback_trades tick_payload
      else
        (case build_user_message tick_payload of Inl e \<Rightarrow> Inl e | Inr user_msg \<Rightarrow>
          (case try_assistant ai of
             Inl e \<Rightarrow> fallback_trades tick_payload
           | Inr None \<Rightarrow> fallback_trades tick_payload
           | Inr (Some r) \<Rightarrow> Inr r)))"

section \<open>business.py: the remote trade submitter and the tick processor\<close>

text \<open>What the remote endpoint does on one POST: no HTTP response at all (a timeout, a
  refused connection), or a response with a status code and a body that \<open>r.json()\<close>
  decodes (\<open>Some v\<close>) or rejects (\<open>None\<close>).\<close>

datatype 'f remote_outcome =
    No_response
  | Response int "'f json option"

text \<open>\<open>data[k] = v\<close>: item assignment with a string key works on an object only.\<close>

fun set_item :: "'f json \<Rightarrow> string \<Rightarrow> 'f json \<Rightarrow> py_error + 'f json" where
  "set_item (JObj kvs) k v = Inr (JObj (AList.update k v kvs))"
| "set_item d k v = Inl TypeError"

definition non_json_body :: "int \<Rightarrow> 'f json" where
  "non_json_body status_code =
     JObj [(''error'', JStr (''Non-JSON response from mothership (status '' @ str_int status_code @ '')''))]"

definition post_trades_to_mothership ::
  "string \<Rightarrow> 'f json list \<Rightarrow> 'f remote_outcome \<Rightarrow> 'f world \<Rightarrow> (py_error + 'f json) \<times> 'f world"
where
  "post_trades_to_mothership trade_id trs remote w =
     (let w' = log_event (Posted trade_id trs) w in
      case remote of
        No_response \<Rightarrow> (Inl TransportError, w')
      | Response status_code body \<Rightarrow>
          (let data = (case body of Some v \<Rightarrow> v | None \<Rightarrow> non_json_body status_code) in
           if status_code = 200 then (set_item data ''_http_status'' (JInt 200), w')
           else (set_item data ''_http_status'' (JInt status_code), w')))"

text \<open>Lines 129-142: the reconciliation of the snapshot with the returned positions.\<close>

definition reconcile ::
  "'f pyrt \<Rightarrow> 'f json \<Rightarrow> 'f json \<Rightarrow> 'f world \<Rightarrow> (py_error + unit) \<times> 'f world"
where
  "reconcile rt market_summary mothership_resp w =
     (case py_get mothership_resp ''_http_status'' JNull of Inl e \<Rightarrow> (Inl e, w) | Inr st \<Rightarrow>
      if st = JInt 200 \<and> has_key mothership_resp ''Positions'' then
        (case subscript mothership_resp ''Positions'' of Inl e \<Rightarrow> (Inl e, w) | Inr returned_positions \<Rightarrow>
        (case price_by_ticker rt market_summary of Inl e \<Rightarrow> (Inl e, w) | Inr prices \<Rightarrow>
        (case py_iter returned_positions of Inl e \<Rightarrow> (Inl e, w) | Inr ps \<Rightarrow>
        (case merge_rows rt prices ps of Inl e \<Rightarrow> (Inl e, w) | Inr merged \<Rightarrow>
          (Inr (), write_json_list POSITIONS_FILE merged w)))))
      else (Inr (), w))"

text \<open>Lines 144-153: the comprehension that strips the status key, and the result.\<close>

fun without_status :: "'f json \<Rightarrow> py_error + 'f json" where
  "without_status (JObj kvs) = Inr (JObj (filter (\<lambda>kv. fst kv \<noteq> ''_http_status'') kvs))"
| "without_status v = Inl AttributeError"

definition tick_result :: "'f pyrt \<Rightarrow> int \<Rightarrow> 'f \<Rightarrow> 'f json list \<Rightarrow> 'f json \<Rightarrow> py_error + 'f json" where
  "tick_result rt evaluated total_unrealized trs mothership_resp =
     (case without_status mothership_resp of Inl e \<Rightarrow> Inl e | Inr stripped \<Rightarrow>
      (case py_get mothership_resp ''_http_status'' JNull of Inl e \<Rightarrow> Inl e | Inr st \<Rightarrow>
        Inr (JObj [(''summary'', JObj [(''positions_evaluated'', JInt evaluated),
                                        (''unrealized_pnl'', JFloat (flt_round4 rt total_unrealized))]),
                   (''decisions'', JArr trs),
                   (''mothership_response'', stripped),
                   (''http_status_mothership'', st)])))"

text \<open>Lines 99-111: the price dictionary, then the loop over the positions.\<close>

definition unrealized :: "'f pyrt \<Rightarrow> 'f json \<Rightarrow> 'f json \<Rightarrow> py_error + (int \<times> 'f)" where
  "unrealized rt positions market_summary =
     (case price_by_ticker rt market_summary of Inl e \<Rightarrow> Inl e | Inr prices \<Rightarrow>
      (case py_iter positions of Inl e \<Rightarrow> Inl e | Inr ps \<Rightarrow>
        pnl_loop rt prices ps 0 (flt_zero rt)))"

definition analyze_tick ::
  "'f pyrt \<Rightarrow> string option \<Rightarrow> 'f ai_outcome \<Rightarrow> 'f remote_outcome \<Rightarrow> 'f json \<Rightarrow> string \<Rightarrow> 'f world
     \<Rightarrow> (py_error + 'f json) \<times> 'f world"
where
  "analyze_tick rt api_key ai remote payload trade_id w =
     (case py_get payload ''Positions'' (JArr []) of Inl e \<Rightarrow> (Inl e, w) | Inr positions \<Rightarrow>
     (case py_get payload ''Market_Summary'' (JArr []) of Inl e \<Rightarrow> (Inl e, w) | Inr market_summary \<Rightarrow>
     (case unrealized rt positions market_summary of Inl e \<Rightarrow> (Inl e, w) | Inr (evaluated, total_unrealized) \<Rightarrow>
     (case build_positions_snapshot rt positions market_summary of Inl e \<Rightarrow> (Inl e, w) | Inr snapshot \<Rightarrow>
       (let w1 = write_json_list POSITIONS_FILE snapshot w;
            w2 = log_event Consulted_assistant w1
        in
        (case get_trade_recommendations api_key ai payload of Inl e \<Rightarrow> (Inl e, w2) | Inr ai_out \<Rightarrow>
          (let w3 = append_trade_log (trades ai_out) (rationale ai_out) w2 in
           (case post_trades_to_mothership trade_id (trades ai_out) remote w3 of
              (Inl e, w4) \<Rightarrow> (Inl e, w4)
            | (Inr mothership_resp, w4) \<Rightarrow>
               (case reconcile rt market_summary mothership_resp w4 of
                  (Inl e, w5) \<Rightarrow> (Inl e, w5)
                | (Inr u, w5) \<Rightarrow>
                    (tick_result rt evaluated total_unrealized (trades ai_out) mothership_resp, w5))))))))))"

section \<open>app.py: the tick route\<close>

record 'f request =
  apikey_header :: "string option"
  is_json :: bool
  json_body :: "'f json option"

text \<open>\<open>json_body\<close> is \<open>request.get_json(silent=True)\<close>: \<open>None\<close> for a body that does
  not parse. A reply is the status code with the JSON body; the text of a processing
  failure is Python's rendering of the exception, kept as the exception.\<close>

datatype 'f reply =
    Unauthorized
  | Bad_request string
  | Processing_error py_error
  | Success "'f json"

fun status_of :: "'f reply \<Rightarrow> nat" where
  "status_of Unauthorized = 401"
| "status_of (Bad_request msg) = 400"
| "status_of (Processing_error e) = 500"
| "status_of (Success body) = 200"

text \<open>\<open>str.strip()\<close> on a header value, whose characters are Latin-1 code points: the
  characters Python counts as whitespace there.\<close>

definition is_space :: "char \<Rightarrow> bool" where
  "is_space c = (c \<in> set [CHR 0x20, CHR 0x09, CHR 0x0A, CHR 0x0B, CHR 0x0C, CHR 0x0D,
                            CHR 0x1C, CHR 0x1D, CHR 0x1E, CHR 0x1F, CHR 0x85, CHR 0xA0])"

definition py_strip :: "string \<Rightarrow> string" where
  "py_strip s = rev (dropWhile is_space (rev (dropWhile is_space s)))"

definition require_apikey :: "string \<Rightarrow> 'f request \<Rightarrow> bool" where
  "require_apikey server_key req =
     (py_strip (case apikey_header req of None \<Rightarrow> [] | Some h \<Rightarrow> h) = server_key)"

text \<open>\<open>result.setdefault(k, v)\<close> on the dictionary \<open>analyze_tick\<close> returned.\<close>

fun setdefault :: "string \<Rightarrow> 'f json \<Rightarrow> 'f json \<Rightarrow> 'f json" where
  "setdefault k v (JObj kvs) = (if map_of kvs k = None then JObj (kvs @ [(k, v)]) else JObj kvs)"
| "setdefault k v d = d"

definition default_summary :: "'f pyrt \<Rightarrow> 'f json" where
  "default_summary rt = JObj [(''positions_evaluated'', JInt 0), (''unrealized_pnl'', JFloat (flt_zero rt))]"

definition tick ::
  "'f pyrt \<Rightarrow> string \<Rightarrow> string option \<Rightarrow> 'f ai_outcome \<Rightarrow> 'f remote_outcome \<Rightarrow> string \<Rightarrow> 'f request
     \<Rightarrow> 'f world \<Rightarrow> 'f reply \<times> 'f world"
where
  "tick rt server_key api_key ai remote trade_id req w =
     (if \<not> require_apikey server_key req then (Unauthorized, w)
      else if \<not> is_json req
        then (Bad_request ''Invalid payload: Content-Type must be application/json'', w)
      else
        (case json_body req of
           None \<Rightarrow> (Bad_request ''Invalid payload: malformed JSON'', w)
         | Some JNull \<Rightarrow> (Bad_request ''Invalid payload: malformed JSON'', w)
         | Some payload \<Rightarrow>
            (case validate_tick_payload payload of
               (False, msg) \<Rightarrow> (Bad_request msg, w)
             | (True, msg) \<Rightarrow>
                (case analyze_tick rt api_key ai remote payload trade_id w of
                   (Inl e, w') \<Rightarrow> (Processing_error e, w')
                 | (Inr result, w') \<Rightarrow>
                    (Success (setdefault ''decisions'' (JArr [])
                               (setdefault ''summary'' (default_summary rt)
                                 (setdefault ''result'' (JStr ''success'') result))), w')))))"

section \<open>A runtime and payloads for the examples\<close>

text \<open>
  An instance of the runtime on which the examples below are evaluated: floats are exact
  rationals, \<open>int()\<close> truncates toward zero, \<open>round(x, 4)\<close> rounds half to even. It
  decodes no numeric strings (every string is rejected), and the examples contain none.
  Every number in the examples is a binary fraction small enough for IEEE double
  arithmetic to give the same results.
\<close>

definition trunc_rat :: "rat \<Rightarrow> int" where
  "trunc_rat x = (if x < 0 then \<lceil>x\<rceil> else \<lfloor>x\<rfloor>)"

definition round_half_even :: "rat \<Rightarrow> int" where
  "round_half_even x =
     (let f = \<lfloor>x\<rfloor>; r = x - of_int f
      in if r < 1 / 2 then f else if 1 / 2 < r then f + 1 else if even f then f else f + 1)"

definition exact_rt :: "rat pyrt" where
  "exact_rt =
     \<lparr>flt_of_int = (\<lambda>n. Inr (of_int n)),
      flt_of_str = (\<lambda>s. Inl ValueError),
      int_of_flt = (\<lambda>x. Inr (trunc_rat x)),
      int_of_str = (\<lambda>s. Inl ValueError),
      flt_as_int = (\<lambda>x. if of_int \<lfloor>x\<rfloor> = x then Some \<lfloor>x\<rfloor> else None),
      flt_zero = 0,
      flt_add = (\<lambda>x y. x + y),
      flt_sub = (\<lambda>x y. x - y),
      flt_mul = (\<lambda>x y. x * y),
      flt_round4 = (\<lambda>x. of_int (round_half_even (x * 10000)) / 10000)\<rparr>"

definition position :: "'f json \<Rightarrow> 'f json \<Rightarrow> 'f json \<Rightarrow> 'f json" where
  "position t q pp = JObj [(''ticker'', t), (''quantity'', q), (''purchase_price'', pp)]"

definition market_row :: "'f json \<Rightarrow> 'f json \<Rightarrow> 'f json" where
  "market_row t cp = JObj [(''ticker'', t), (''current_price'', cp), (''category'', JStr ''low'')]"

definition tick_payload :: "'f json list \<Rightarrow> 'f json list \<Rightarrow> 'f json" where
  "tick_payload ps ms =
     JObj [(''Positions'', JArr ps), (''Market_Summary'', JArr ms),
           (''market_history'',
              JArr [JObj [(''ticker'', JStr ''X''), (''price'', JInt 105), (''day'', JStr ''2025-01-01'')]])]"

text \<open>The scenario of the specification's section 8: ten shares of X bought at 100,
  now at 110.\<close>

definition scenario :: "rat json" where
  "scenario = tick_payload [position (JStr ''X'') (JInt 10) (JInt 100)] [market_row (JStr ''X'') (JInt 110)]"

definition empty_world :: "'f world" where
  "empty_world = \<lparr>files = (\<lambda>p. Absent), trace = []\<rparr>"

text \<open>Variations of the scenario: a quantity of one and a half; a price, a quantity
  that is null; a position whose ticker \<open>Market_Summary\<close> does not list.\<close>

definition fractional :: "rat json" where
  "fractional =
     tick_payload [position (JStr ''X'') (JFloat (3 / 2)) (JInt 100)] [market_row (JStr ''X'') (JInt 110)]"

definition null_purchase :: "rat json" where
  "null_purchase = tick_payload [position (JStr ''X'') (JInt 10) JNull] [market_row (JStr ''X'') (JInt 110)]"

definition null_quantity :: "rat json" where
  "null_quantity = tick_payload [position (JStr ''X'') JNull (JInt 100)] [market_row (JStr ''X'') (JInt 110)]"

definition unlisted :: "rat json" where
  "unlisted = tick_payload [position (JStr ''Y'') JNull (JInt 1)] [market_row (JStr ''X'') (JInt 110)]"

text \<open>The scenario with X listed twice in \<open>Market_Summary\<close>: first at 100 and then
  at 110; first with a null price and then at 110.\<close>

definition listed_twice :: "rat json" where
  "listed_twice =
     tick_payload [position (JStr ''X'') (JInt 10) (JInt 100)]
       [market_row (JStr ''X'') (JInt 100), market_row (JStr ''X'') (JInt 110)]"

definition listed_twice_null :: "rat json" where
  "listed_twice_null =
     tick_payload [position (JStr ''X'') (JInt 10) (JInt 100)]
       [market_row (JStr ''X'') JNull, market_row (JStr ''X'') (JInt 110)]"

definition ok_remote :: "rat remote_outcome" where
  "ok_remote = Response 200 (Some (JObj []))"

text \<open>Two answers of the remote endpoint with status 200 and a \<open>Positions\<close> list: one
  whose element has no quantity, one whose element has a quantity of one and a half.\<close>

definition remote_without_quantity :: "rat remote_outcome" where
  "remote_without_quantity =
     Response 200 (Some (JObj [(''Positions'', JArr [JObj [(''ticker'', JStr ''X'')]])]))"

definition remote_fractional :: "rat remote_outcome" where
  "remote_fractional =
     Response 200 (Some (JObj [(''Positions'', JArr [position (JStr ''X'') (JFloat (3 / 2)) (JInt 100)])]))"

definition remote_updated :: "rat remote_outcome" where
  "remote_updated =
     Response 200 (Some (JObj [(''Positions'', JArr [position (JStr ''X'') (JInt 12) (JInt 101)])]))"

definition good_request :: "rat json \<Rightarrow> rat request" where
  "good_request payload = \<lparr>apikey_header = Some ''secret'', is_json = True, json_body = Some payload\<rparr>"

lemmas payload_defs =
  scenario_def fractional_def null_purchase_def null_quantity_def unlisted_def
  listed_twice_def listed_twice_null_def
  tick_payload_def position_def market_row_def ok_remote_def good_request_def empty_world_def
  remote_without_quantity_def remote_fractional_def remote_updated_def

lemmas validator_defs =
  validate_tick_payload_def rows_of_def missing_field_def no_extra_def day_is_str_def

lemmas runtime_defs =
  exact_rt_def trunc_rat_def round_half_even_def flt_mul_int_def bool_int_def

lemmas tick_defs =
  analyze_tick_def unrealized_def price_by_ticker_def build_positions_snapshot_def
  position_record_def current_price_of_def write_json_list_def log_event_def
  get_trade_recommendations_def no_credential_def fallback_trades_def
  build_user_message_def read_tool_args_def
  append_trade_log_def read_json_list_def post_trades_to_mothership_def non_json_body_def
  reconcile_def tick_result_def Let_def

section \<open>The properties, in the specification's words\<close>

text \<open>The fallback's trade for one position: \<open>{action: STAY, ticker: t, quantity: 0}\<close>
  for the position's ticker \<open>t\<close>.\<close>

definition is_stay_trade_for :: "'f json \<Rightarrow> 'f json \<Rightarrow> bool" where
  "is_stay_trade_for p tr =
     (\<exists>t. subscript p ''ticker'' = Inr t \<and>
          tr = JObj [(''action'', JStr ''STAY''), (''ticker'', t), (''quantity'', JInt 0)])"

text \<open>A snapshot record for one position: its ticker, its quantity as an integer, its
  purchase price as a float, and its price in \<open>Market_Summary\<close>, or null when its
  ticker has none. There is no record for an element that lacks a field or holds a
  value that is no number.\<close>

definition enriched :: "'f pyrt \<Rightarrow> ('f key \<rightharpoonup> 'f) \<Rightarrow> 'f json \<Rightarrow> 'f json option" where
  "enriched rt prices p =
     (case (subscript p ''ticker'', subscript p ''quantity'', subscript p ''purchase_price'') of
        (Inr t, Inr q, Inr pp) \<Rightarrow>
          (case (dict_key rt t, py_int rt q, py_float rt pp) of
             (Inr k, Inr n, Inr x) \<Rightarrow>
               Some (JObj [(''ticker'', t), (''quantity'', JInt n), (''purchase_price'', JFloat x),
                           (''current_price'', (case prices k of None \<Rightarrow> JNull | Some c \<Rightarrow> JFloat c))])
           | _ \<Rightarrow> None)
      | _ \<Rightarrow> None)"



text \<open>A quantity is a whole number when \<open>int()\<close> does not change its value: the float
  it denotes is the float of its integer part.\<close>

definition whole_number :: "'f pyrt \<Rightarrow> 'f json \<Rightarrow> bool" where
  "whole_number rt q =
     (case (py_int rt q, py_float rt q) of
        (Inr n, Inr x) \<Rightarrow> flt_of_int rt n = Inr x
      | _ \<Rightarrow> False)"

definition whole_quantity :: "'f pyrt \<Rightarrow> 'f json \<Rightarrow> bool" where
  "whole_quantity rt p =
     (case subscript p ''quantity'' of Inr q \<Rightarrow> whole_number rt q | Inl e \<Rightarrow> False)"




text \<open>The state in which a tick issues its POST: the snapshot written, the assistant
  consulted, the recommendation appended to the history.\<close>

definition before_post :: "'f json list \<Rightarrow> 'f recommendation \<Rightarrow> 'f world \<Rightarrow> 'f world" where
  "before_post snapshot r w =
     append_trade_log (trades r) (rationale r)
       (log_event Consulted_assistant (write_json_list POSITIONS_FILE snapshot w))"




text \<open>The documents a file holds in turn when entries are appended to it one at a
  time, each document being the one before with one entry more at its end.\<close>

fun appended_in_turn :: "'a list \<Rightarrow> 'a list \<Rightarrow> 'a list list" where
  "appended_in_turn h [] = []"
| "appended_in_turn h (e # es) = (h @ [e]) # appended_in_turn (h @ [e]) es"




text \<open>The validator's five rules, as section 4.1 of the specification words them.\<close>

definition is_list_at :: "'f json \<Rightarrow> string \<Rightarrow> bool" where
  "is_list_at p k = (case subscript p k of Inr v \<Rightarrow> is_list v | Inl e \<Rightarrow> False)"

definition rule1 :: "'f json \<Rightarrow> bool" where
  "rule1 p = is_dict p"

definition rule2 :: "'f json \<Rightarrow> bool" where
  "rule2 p = list_all (is_list_at p) [''Positions'', ''Market_Summary'', ''market_history'']"

definition rule3 :: "'f json \<Rightarrow> bool" where
  "rule3 p =
     list_all (\<lambda>r. is_dict r \<and> list_all (has_key r) [''ticker'', ''quantity'', ''purchase_price''])
       (rows_of p ''Positions'')"

definition rule4 :: "'f json \<Rightarrow> bool" where
  "rule4 p =
     list_all (\<lambda>r. is_dict r \<and> list_all (has_key r) [''ticker'', ''current_price'', ''category''])
       (rows_of p ''Market_Summary'')"

definition rule5 :: "'f json \<Rightarrow> bool" where
  "rule5 p =
     list_all (\<lambda>r. is_dict r \<and> list_all (has_key r) [''ticker'', ''price'', ''day''] \<and>
                    (case subscript r ''day'' of Inr d \<Rightarrow> is_str d | Inl e \<Rightarrow> False))
       (rows_of p ''market_history'')"



text \<open>The first of the three required keys, in the validator's order, that is missing
  or holds no list, and the validator's reason for it.\<close>

definition first_bad_key :: "'f json \<Rightarrow> string option" where
  "first_bad_key p = find (\<lambda>k. \<not> is_list_at p k) [''Positions'', ''Market_Summary'', ''market_history'']"

definition key_reason :: "'f json \<Rightarrow> string \<Rightarrow> string" where
  "key_reason p k = (if has_key p k then k @ '' must be a list'' else ''Missing required field: '' @ k)"



text \<open>A payload the validator rejects: it has no \<open>market_history\<close>.\<close>

definition without_history :: "rat json" where
  "without_history = JObj [(''Positions'', JArr []), (''Market_Summary'', JArr [])]"

section \<open>Lemmas: validated payloads\<close>

lemma check_rows_None:
  "check_rows name req extra idx rows = None \<Longrightarrow> r \<in> set rows \<Longrightarrow>
     is_dict r \<and> missing_field req r = None \<and> extra r = None"
  by (induction rows arbitrary: idx) (auto split: if_splits option.splits)

lemma missing_field_None: "missing_field req r = None \<Longrightarrow> f \<in> set req \<Longrightarrow> has_key r f"
  by (auto simp: missing_field_def find_None_iff)

lemma is_dict_JObj: "is_dict r \<Longrightarrow> \<exists>kvs. r = JObj kvs"
  by (cases r) auto

lemma is_list_JArr: "is_list r \<Longrightarrow> \<exists>xs. r = JArr xs"
  by (cases r) auto

lemma check_required_None:
  "check_required keys p = None \<Longrightarrow> k \<in> set keys \<Longrightarrow> \<exists>xs. subscript p k = Inr (JArr xs)"
  by (induction keys) (auto split: if_splits sum.splits dest: is_list_JArr)

lemma validated_parts:
  assumes "validate_tick_payload p = (True, msg)"
  shows "\<exists>kvs. p = JObj kvs"
    and "\<exists>xs. subscript p ''Positions'' = Inr (JArr xs)"
    and "\<exists>xs. subscript p ''Market_Summary'' = Inr (JArr xs)"
    and "r \<in> set (rows_of p ''Positions'') \<Longrightarrow>
           is_dict r \<and> has_key r ''ticker'' \<and> has_key r ''quantity'' \<and> has_key r ''purchase_price''"
    and "r \<in> set (rows_of p ''Market_Summary'') \<Longrightarrow>
           is_dict r \<and> has_key r ''ticker'' \<and> has_key r ''current_price''"
proof -
  from assms have d: "is_dict p"
    and c: "check_required [''Positions'', ''Market_Summary'', ''market_history''] p = None"
    and rp: "check_rows ''Positions'' [''ticker'', ''quantity'', ''purchase_price''] no_extra 0
              (rows_of p ''Positions'') = None"
    and rm: "check_rows ''Market_Summary'' [''ticker'', ''current_price'', ''category''] no_extra 0
              (rows_of p ''Market_Summary'') = None"
    by (auto simp: validate_tick_payload_def split: if_splits option.splits)
  from d show "\<exists>kvs. p = JObj kvs" by (rule is_dict_JObj)
  from c show "\<exists>xs. subscript p ''Positions'' = Inr (JArr xs)"
    by (rule check_required_None) simp
  from c show "\<exists>xs. subscript p ''Market_Summary'' = Inr (JArr xs)"
    by (rule check_required_None) simp
  show "is_dict r \<and> has_key r ''ticker'' \<and> has_key r ''quantity'' \<and> has_key r ''purchase_price''"
    if "r \<in> set (rows_of p ''Positions'')"
    using check_rows_None[OF rp that] by (auto dest: missing_field_None)
  show "is_dict r \<and> has_key r ''ticker'' \<and> has_key r ''current_price''"
    if "r \<in> set (rows_of p ''Market_Summary'')"
    using check_rows_None[OF rm that] by (auto dest: missing_field_None)
qed

lemma stay_trades_all:
  "(\<And>p. p \<in> set ps \<Longrightarrow> is_dict p \<and> has_key p ''ticker'') \<Longrightarrow>
     list_all2 is_stay_trade_for ps (List.map_filter stay_trade ps)"
proof (induction ps)
  case Nil
  show ?case by (simp add: List.map_filter_def)
next
  case (Cons p ps)
  from Cons.prems[of p] obtain kvs t where p: "p = JObj kvs" and t: "map_of kvs ''ticker'' = Some t"
    by (cases p) auto
  have tl: "list_all2 is_stay_trade_for ps (List.map_filter stay_trade ps)"
    using Cons by simp
  have hd: "is_stay_trade_for p (JObj [(''action'', JStr ''STAY''), (''ticker'', t), (''quantity'', JInt 0)])"
    using p t by (simp add: is_stay_trade_for_def)
  from p t have "List.map_filter stay_trade (p # ps) =
      JObj [(''action'', JStr ''STAY''), (''ticker'', t), (''quantity'', JInt 0)] # List.map_filter stay_trade ps"
    by (simp add: List.map_filter_simps)
  with hd tl show ?case by simp
qed

lemma validated_rows:
  assumes "validate_tick_payload p = (True, msg)"
  shows "subscript p ''Positions'' = Inr (JArr (rows_of p ''Positions''))"
    and "subscript p ''Market_Summary'' = Inr (JArr (rows_of p ''Market_Summary''))"
  using validated_parts(2,3)[OF assms] by (auto simp: rows_of_def)

lemma subscript_py_get: "subscript p k = Inr v \<Longrightarrow> py_get p k d = Inr v"
  by (cases p) (auto split: option.splits)

lemma validated_positions:
  assumes "validate_tick_payload p = (True, msg)"
  shows "py_get p ''Positions'' d = Inr (JArr (rows_of p ''Positions''))"
  using validated_rows(1)[OF assms] by (rule subscript_py_get)

lemma validated_market_summary:
  assumes "validate_tick_payload p = (True, msg)"
  shows "py_get p ''Market_Summary'' d = Inr (JArr (rows_of p ''Market_Summary''))"
  using validated_rows(2)[OF assms] by (rule subscript_py_get)

lemma validated_fallback:
  assumes "validate_tick_payload p = (True, msg)"
  shows "fallback_trades p =
           Inr \<lparr>trades = List.map_filter stay_trade (rows_of p ''Positions''),
                rationale = JStr fallback_rationale\<rparr>"
  by (simp add: fallback_trades_def validated_positions[OF assms])

lemma validated_user_message:
  assumes "validate_tick_payload p = (True, msg)"
  shows "build_user_message p = Inr ()"
proof -
  from validated_parts(1)[OF assms] obtain kvs where "p = JObj kvs" by blast
  then have "\<exists>a. py_get p ''Prices'' (JObj []) = Inr a" "\<exists>a. py_get p ''News'' (JStr []) = Inr a"
    by (auto split: option.splits)
  then show ?thesis
    by (auto simp: build_user_message_def validated_positions[OF assms])
qed

lemma validated_recommendation:
  assumes "validate_tick_payload payload = (True, msg)"
  shows "\<exists>r. get_trade_recommendations api_key ai payload = Inr r \<and>
             (no_credential api_key \<longrightarrow>
                rationale r = JStr fallback_rationale \<and>
                list_all2 is_stay_trade_for (rows_of payload ''Positions'') (trades r))"
proof -
  have rows: "list_all2 is_stay_trade_for (rows_of payload ''Positions'')
                (List.map_filter stay_trade (rows_of payload ''Positions''))"
    by (rule stay_trades_all) (use validated_parts(4)[OF assms] in blast)
  show ?thesis
  proof (cases "no_credential api_key \<or> ai = Client_fails")
    case True
    then have "get_trade_recommendations api_key ai payload = fallback_trades payload"
      by (auto simp: get_trade_recommendations_def)
    with rows show ?thesis by (simp add: validated_fallback[OF assms])
  next
    case False
    then show ?thesis
      by (auto simp: get_trade_recommendations_def validated_user_message[OF assms]
            validated_fallback[OF assms] split: sum.splits option.splits)
  qed
qed

section \<open>Lemmas: the tick processor\<close>

lemma snapshot_rows_Cons_Inr:
  "snapshot_rows rt prices (p # ps) = Inr snap \<longleftrightarrow>
     (\<exists>s rest. enriched rt prices p = Some s \<and> snapshot_rows rt prices ps = Inr rest \<and> snap = s # rest)"
  by (auto simp: enriched_def position_record_def current_price_of_def split: sum.splits)


lemma snapshot_rows_enriched:
  "snapshot_rows rt prices ps = Inr snap \<longleftrightarrow> map (enriched rt prices) ps = map Some snap"
proof (induction ps arbitrary: snap)
  case Nil
  show ?case by auto
next
  case (Cons p ps)
  show ?case
    unfolding snapshot_rows_Cons_Inr Cons.IH by (auto simp: Cons_eq_map_conv)
qed


lemma pnl_loop_Cons_Inr:
  "pnl_loop rt prices (p # ps) ev tot = Inr r \<Longrightarrow>
     enriched rt prices' p \<noteq> None \<and> (\<exists>ev' tot'. pnl_loop rt prices ps ev' tot' = Inr r)"
  by (auto simp: enriched_def split: sum.splits option.splits)

lemma pnl_loop_enriched:
  "pnl_loop rt prices ps ev tot = Inr r \<Longrightarrow> list_all (\<lambda>p. enriched rt prices' p \<noteq> None) ps"
proof (induction ps arbitrary: ev tot)
  case Nil
  show ?case by simp
next
  case (Cons p ps)
  from pnl_loop_Cons_Inr[OF Cons.prems, of prices'] Cons.IH show ?case by auto
qed

lemma all_enriched_map:
  "list_all (\<lambda>p. f p \<noteq> None) ps \<Longrightarrow> \<exists>ys. map f ps = map Some ys"
proof (induction ps)
  case Nil
  show ?case by simp
next
  case (Cons p ps)
  then obtain y ys where "f p = Some y" "map f ps = map Some ys" by auto
  then have "map f (p # ps) = map Some (y # ys)" by simp
  then show ?case by blast
qed

lemma pnl_loop_snapshot:
  assumes "pnl_loop rt prices ps ev tot = Inr r"
  shows "\<exists>snap. snapshot_rows rt prices' ps = Inr snap"
  using all_enriched_map[OF pnl_loop_enriched[OF assms, of prices']]
  by (simp add: snapshot_rows_enriched)

lemma unrealized_Inr:
  "unrealized rt positions market_summary = Inr r \<longleftrightarrow>
     (\<exists>prices ps. price_by_ticker rt market_summary = Inr prices \<and> py_iter positions = Inr ps \<and>
        pnl_loop rt prices ps 0 (flt_zero rt) = Inr r)"
  by (auto simp: unrealized_def split: sum.splits)

lemma build_positions_snapshot_Inr:
  "build_positions_snapshot rt positions market_summary = Inr snap \<longleftrightarrow>
     (\<exists>prices ps. price_by_ticker rt market_summary = Inr prices \<and> py_iter positions = Inr ps \<and>
        snapshot_rows rt prices ps = Inr snap)"
  by (auto simp: build_positions_snapshot_def split: sum.splits)

lemma unrealized_snapshot:
  assumes "unrealized rt positions market_summary = Inr r"
  shows "\<exists>snap. build_positions_snapshot rt positions market_summary = Inr snap"
proof -
  from assms obtain prices ps where p: "price_by_ticker rt market_summary = Inr prices"
    and i: "py_iter positions = Inr ps" and l: "pnl_loop rt prices ps 0 (flt_zero rt) = Inr r"
    unfolding unrealized_Inr by blast
  from pnl_loop_snapshot[OF l, of prices] obtain snap where "snapshot_rows rt prices ps = Inr snap" ..
  with p i show ?thesis unfolding build_positions_snapshot_Inr by blast
qed

lemma post_trades_snd:
  "snd (post_trades_to_mothership trade_id trs remote w) = log_event (Posted trade_id trs) w"
  by (simp add: post_trades_to_mothership_def Let_def split: remote_outcome.splits)

lemma post_trades_fst:
  "fst (post_trades_to_mothership trade_id trs remote w) =
   fst (post_trades_to_mothership trade_id' trs' remote w')"
  by (simp add: post_trades_to_mothership_def Let_def split: remote_outcome.splits)

lemma post_trades_eq:
  "post_trades_to_mothership trade_id trs remote w =
     (fst (post_trades_to_mothership [] [] remote empty_world), log_event (Posted trade_id trs) w)"
  using post_trades_snd[of trade_id trs remote w] post_trades_fst[of trade_id trs remote w "[]" "[]" empty_world]
  by (metis prod.collapse)


lemma analyze_tick_steps:
  assumes v: "validate_tick_payload payload = (True, msg)"
    and u: "unrealized rt (JArr (rows_of payload ''Positions'')) (JArr (rows_of payload ''Market_Summary''))
              = Inr (evaluated, tot)"
    and s: "build_positions_snapshot rt (JArr (rows_of payload ''Positions''))
              (JArr (rows_of payload ''Market_Summary'')) = Inr snapshot"
    and g: "get_trade_recommendations api_key ai payload = Inr r"
  shows "analyze_tick rt api_key ai remote payload trade_id w =
     (case post_trades_to_mothership trade_id (trades r) remote (before_post snapshot r w) of
        (Inl e, w4) \<Rightarrow> (Inl e, w4)
      | (Inr resp, w4) \<Rightarrow>
          (case reconcile rt (JArr (rows_of payload ''Market_Summary'')) resp w4 of
             (Inl e, w5) \<Rightarrow> (Inl e, w5)
           | (Inr u, w5) \<Rightarrow> (tick_result rt evaluated tot (trades r) resp, w5)))"
  by (simp add: analyze_tick_def validated_positions[OF v] validated_market_summary[OF v] u s g
        before_post_def Let_def)

section \<open>Lemmas: files, trace and the remote leg\<close>

lemma before_post_positions:
  "files (before_post snapshot r w) POSITIONS_FILE = Document (JArr snapshot)"
  by (simp add: before_post_def append_trade_log_def write_json_list_def log_event_def Let_def)

lemma before_post_history:
  "read_json_list TRADES_FILE (before_post snapshot r w) =
     read_json_list TRADES_FILE w @
       [JObj [(''ai_recommendations'', JArr (trades r)), (''rationale'', rationale r)]]"
  by (simp add: before_post_def append_trade_log_def write_json_list_def log_event_def Let_def
        read_json_list_def)

lemma before_post_trace:
  "trace (before_post snapshot r w) =
     trace w @ [Wrote POSITIONS_FILE snapshot, Consulted_assistant,
                Wrote TRADES_FILE (read_json_list TRADES_FILE w @
                  [JObj [(''ai_recommendations'', JArr (trades r)), (''rationale'', rationale r)]])]"
  by (simp add: before_post_def append_trade_log_def write_json_list_def log_event_def Let_def
        read_json_list_def)

lemma log_event_files: "files (log_event ev w) = files w"
  by (simp add: log_event_def)

lemma log_event_read: "read_json_list p (log_event ev w) = read_json_list p w"
  by (simp add: log_event_def read_json_list_def)

lemma log_event_trace: "trace (log_event ev w) = trace w @ [ev]"
  by (simp add: log_event_def)

lemma post_No_response:
  "post_trades_to_mothership trade_id trs No_response w = (Inl TransportError, log_event (Posted trade_id trs) w)"
  by (simp add: post_trades_to_mothership_def)

lemma reconcile_trace:
  "\<exists>later. trace (snd (reconcile rt market_summary resp w)) = trace w @ later"
  by (auto simp: reconcile_def write_json_list_def log_event_def split: sum.splits)

lemma analyze_tick_snd:
  assumes v: "validate_tick_payload payload = (True, msg)"
    and u: "unrealized rt (JArr (rows_of payload ''Positions'')) (JArr (rows_of payload ''Market_Summary''))
              = Inr pnl"
    and s: "build_positions_snapshot rt (JArr (rows_of payload ''Positions''))
              (JArr (rows_of payload ''Market_Summary'')) = Inr snapshot"
    and g: "get_trade_recommendations api_key ai payload = Inr r"
  shows "snd (analyze_tick rt api_key ai remote payload trade_id w) =
     (case fst (post_trades_to_mothership [] [] remote empty_world) of
        Inl e \<Rightarrow> log_event (Posted trade_id (trades r)) (before_post snapshot r w)
      | Inr resp \<Rightarrow>
          snd (reconcile rt (JArr (rows_of payload ''Market_Summary'')) resp
                 (log_event (Posted trade_id (trades r)) (before_post snapshot r w))))"
proof -
  obtain evaluated tot where pnl: "pnl = (evaluated, tot)" by (cases pnl)
  show ?thesis
    unfolding analyze_tick_steps[OF v u[unfolded pnl] s g]
      post_trades_eq[of trade_id "trades r" remote "before_post snapshot r w"]
    by (simp split: sum.splits prod.splits)
qed

lemma build_snapshot_enriched:
  assumes "build_positions_snapshot rt (JArr ps) market_summary = Inr snapshot"
    and "price_by_ticker rt market_summary = Inr prices"
  shows "map (enriched rt prices) ps = map Some snapshot"
  using assms by (simp add: build_positions_snapshot_def snapshot_rows_enriched)








section \<open>Lemmas: the price dictionary\<close>




section \<open>Lemmas: the rules of the validator\<close>

lemma is_list_at_has_key: "is_list_at p k \<Longrightarrow> has_key p k"
  by (cases p) (auto simp: is_list_at_def split: option.splits)

lemma check_required_None_iff:
  "check_required keys p = None \<longleftrightarrow> list_all (is_list_at p) keys"
  by (induction keys) (auto simp: is_list_at_def dest: is_list_at_has_key[unfolded is_list_at_def])

lemma check_required_Some:
  "check_required keys p = Some msg \<Longrightarrow>
     \<exists>key \<in> set keys. msg = ''Missing required field: '' @ key \<or> msg = key @ '' must be a list''"
  by (induction keys) (auto split: if_splits)

lemma all_fields_iff: "list_all (has_key r) req \<longleftrightarrow> missing_field req r = None"
  by (auto simp: missing_field_def find_None_iff list_all_iff)

lemma check_rows_None_iff:
  "check_rows name req extra idx rows = None \<longleftrightarrow>
     list_all (\<lambda>r. is_dict r \<and> list_all (has_key r) req \<and> extra r = None) rows"
proof (induction rows arbitrary: idx)
  case Nil
  show ?case by simp
next
  case (Cons r rows)
  show ?case
    by (cases "missing_field req r"; cases "extra r") (simp_all add: all_fields_iff Cons.IH)
qed

lemma check_rows_Some:
  "check_rows name req extra idx rows = Some msg \<Longrightarrow>
     (\<exists>i detail. msg = name @ ''['' @ str_nat i @ detail) \<or> (\<exists>r \<in> set rows. extra r = Some msg)"
proof (induction rows arbitrary: idx)
  case Nil
  then show ?case by simp
next
  case (Cons r rows)
  show ?case
  proof (cases "is_dict r")
    case False
    with Cons.prems have "msg = name @ ''['' @ str_nat idx @ ''] must be an object''" by simp
    then show ?thesis by blast
  next
    case True
    show ?thesis
    proof (cases "missing_field req r")
      case (Some field)
      with True Cons.prems
      have "msg = name @ ''['' @ str_nat idx @ (''] missing '' @ [CHR 0x27] @ field @ [CHR 0x27])"
        by simp
      then show ?thesis by blast
    next
      case None
      show ?thesis
      proof (cases "extra r")
        case (Some m)
        with True None Cons.prems have "extra r = Some msg" by simp
        then show ?thesis by simp
      next
        case None': None
        with True None Cons.prems have "check_rows name req extra (Suc idx) rows = Some msg" by simp
        from Cons.IH[OF this] show ?thesis
        proof
          assume "\<exists>i detail. msg = name @ ''['' @ str_nat i @ detail"
          then show ?thesis ..
        next
          assume "\<exists>r' \<in> set rows. extra r' = Some msg"
          then have "\<exists>r' \<in> set (r # rows). extra r' = Some msg" by simp
          then show ?thesis ..
        qed
      qed
    qed
  qed
qed

lemma no_extra_never: "no_extra r \<noteq> Some msg"
  by (simp add: no_extra_def)

lemma day_is_str_Some: "day_is_str r = Some msg \<Longrightarrow> msg = ''market_history.day must be a date string''"
  by (auto simp: day_is_str_def split: sum.splits if_splits)

lemma day_is_str_None: "day_is_str r = None \<longleftrightarrow> (case subscript r ''day'' of Inr d \<Rightarrow> is_str d | Inl e \<Rightarrow> False)"
  by (auto simp: day_is_str_def split: sum.splits)

lemma rule3_check:
  "rule3 p \<longleftrightarrow> check_rows ''Positions'' [''ticker'', ''quantity'', ''purchase_price''] no_extra 0
                   (rows_of p ''Positions'') = None"
  unfolding check_rows_None_iff rule3_def by (simp add: no_extra_def)

lemma rule4_check:
  "rule4 p \<longleftrightarrow> check_rows ''Market_Summary'' [''ticker'', ''current_price'', ''category''] no_extra 0
                   (rows_of p ''Market_Summary'') = None"
  unfolding check_rows_None_iff rule4_def by (simp add: no_extra_def)

lemma rule5_check:
  "rule5 p \<longleftrightarrow> check_rows ''market_history'' [''ticker'', ''price'', ''day''] day_is_str 0
                   (rows_of p ''market_history'') = None"
  unfolding check_rows_None_iff rule5_def by (simp add: day_is_str_None)

lemma rule2_check:
  "rule2 p \<longleftrightarrow> check_required [''Positions'', ''Market_Summary'', ''market_history''] p = None"
  unfolding check_required_None_iff rule2_def ..

lemma tick_invalid:
  assumes "case json_body req of None \<Rightarrow> True | Some p \<Rightarrow> \<not> fst (validate_tick_payload p)"
  shows "snd (tick rt server_key api_key ai remote trade_id req w) = w"
  using assms by (auto simp: tick_def split: option.splits json.splits prod.splits bool.splits)

lemma tick_invalid_reply:
  assumes "require_apikey server_key req" "is_json req" "json_body req = Some p" "p \<noteq> JNull"
    and "\<not> fst (validate_tick_payload p)"
  shows "tick rt server_key api_key ai remote trade_id req w = (Bad_request (snd (validate_tick_payload p)), w)"
  using assms by (cases p; cases "validate_tick_payload p") (auto simp: tick_def)

lemma validate_rule1:
  "\<not> rule1 p \<Longrightarrow> validate_tick_payload p = (False, ''Payload must be a JSON object'')"
  by (simp add: validate_tick_payload_def rule1_def)

lemma validate_rule2:
  assumes "rule1 p" "\<not> rule2 p"
  shows "\<exists>key \<in> set [''Positions'', ''Market_Summary'', ''market_history''].
           validate_tick_payload p = (False, ''Missing required field: '' @ key) \<or>
           validate_tick_payload p = (False, key @ '' must be a list'')"
proof -
  from assms(2) obtain msg where
    m: "check_required [''Positions'', ''Market_Summary'', ''market_history''] p = Some msg"
    unfolding rule2_check by blast
  with assms(1) have "validate_tick_payload p = (False, msg)"
    by (simp add: validate_tick_payload_def rule1_def)
  with check_required_Some[OF m] show ?thesis by auto
qed

lemma validate_rule3:
  assumes "rule1 p" "rule2 p" "\<not> rule3 p"
  shows "\<exists>idx detail. validate_tick_payload p = (False, ''Positions'' @ ''['' @ str_nat idx @ detail)"
proof -
  from assms(3) obtain msg where
    m: "check_rows ''Positions'' [''ticker'', ''quantity'', ''purchase_price''] no_extra 0
          (rows_of p ''Positions'') = Some msg"
    unfolding rule3_check by blast
  with assms(1,2) have "validate_tick_payload p = (False, msg)"
    by (simp add: validate_tick_payload_def rule1_def rule2_check)
  with check_rows_Some[OF m] show ?thesis by (simp add: no_extra_never)
qed

lemma validate_rule4:
  assumes "rule1 p" "rule2 p" "rule3 p" "\<not> rule4 p"
  shows "\<exists>idx detail. validate_tick_payload p = (False, ''Market_Summary'' @ ''['' @ str_nat idx @ detail)"
proof -
  from assms(4) obtain msg where
    m: "check_rows ''Market_Summary'' [''ticker'', ''current_price'', ''category''] no_extra 0
          (rows_of p ''Market_Summary'') = Some msg"
    unfolding rule4_check by blast
  with assms(1,2,3) have "validate_tick_payload p = (False, msg)"
    by (simp add: validate_tick_payload_def rule1_def rule2_check rule3_check)
  with check_rows_Some[OF m] show ?thesis by (simp add: no_extra_never)
qed

lemma validate_rule5:
  assumes "rule1 p" "rule2 p" "rule3 p" "rule4 p" "\<not> rule5 p"
  shows "(\<exists>idx detail. validate_tick_payload p = (False, ''market_history'' @ ''['' @ str_nat idx @ detail)) \<or>
         validate_tick_payload p = (False, ''market_history.day must be a date string'')"
proof -
  from assms(5) obtain msg where
    m: "check_rows ''market_history'' [''ticker'', ''price'', ''day''] day_is_str 0
          (rows_of p ''market_history'') = Some msg"
    unfolding rule5_check by blast
  with assms(1-4) have v: "validate_tick_payload p = (False, msg)"
    by (simp add: validate_tick_payload_def rule1_def rule2_check rule3_check rule4_check)
  from check_rows_Some[OF m] show ?thesis
  proof
    assume "\<exists>i detail. msg = ''market_history'' @ ''['' @ str_nat i @ detail"
    with v show ?thesis by simp
  next
    assume "\<exists>r \<in> set (rows_of p ''market_history''). day_is_str r = Some msg"
    then have "msg = ''market_history.day must be a date string''"
      by (auto dest: day_is_str_Some)
    with v show ?thesis by simp
  qed
qed

lemma validate_all_rules:
  assumes "rule1 p" "rule2 p" "rule3 p" "rule4 p" "rule5 p"
  shows "validate_tick_payload p = (True, ''OK'')"
  using assms
  by (simp add: validate_tick_payload_def rule1_def rule2_check rule3_check rule4_check rule5_check)

lemma validate_without_history:
  assumes "\<not> has_key p ''market_history''"
  shows "fst (validate_tick_payload p) = False"
proof (cases "rule1 p")
  case False
  then show ?thesis by (simp add: validate_rule1)
next
  case True
  from assms have "\<not> rule2 p"
    by (auto simp: rule2_def dest: is_list_at_has_key)
  from validate_rule2[OF True this] show ?thesis by auto
qed

lemma validate_names_history:
  assumes "is_list_at p ''Positions''" "is_list_at p ''Market_Summary''" "\<not> has_key p ''market_history''"
  shows "validate_tick_payload p = (False, ''Missing required field: market_history'')"
proof -
  from assms(1) have d: "is_dict p" by (cases p) (auto simp: is_list_at_def)
  from assms have "check_required [''Positions'', ''Market_Summary'', ''market_history''] p =
      Some ''Missing required field: market_history''"
    by (auto simp: is_list_at_def dest: is_list_at_has_key[unfolded is_list_at_def])
  with d show ?thesis by (simp add: validate_tick_payload_def)
qed

section \<open>Lemmas: the history over a run of ticks\<close>


lemma reconcile_Inl: "reconcile rt market_summary resp w = (Inl e, w') \<Longrightarrow> w' = w"
  by (auto simp: reconcile_def split: sum.splits if_splits)









lemma length_appended_in_turn: "length (appended_in_turn h es) = length es"
  by (induction es arbitrary: h) simp_all



section \<open>Lemmas: readable positions and rows, and the first failing key\<close>







lemma analyze_tick_early:
  assumes v: "validate_tick_payload payload = (True, msg)"
    and u: "unrealized rt (JArr (rows_of payload ''Positions'')) (JArr (rows_of payload ''Market_Summary''))
              = Inl e"
  shows "analyze_tick rt api_key ai remote payload trade_id w = (Inl e, w)"
  by (simp add: analyze_tick_def validated_positions[OF v] validated_market_summary[OF v] u)



lemma check_required_find:
  "check_required keys p =
     (case find (\<lambda>k. \<not> is_list_at p k) keys of None \<Rightarrow> None | Some k \<Rightarrow> Some (key_reason p k))"
proof (induction keys)
  case Nil
  show ?case by simp
next
  case (Cons k keys)
  show ?case
  proof (cases "is_list_at p k")
    case True
    with is_list_at_has_key[OF True] Cons.IH show ?thesis
      by (simp add: is_list_at_def)
  next
    case False
    then show ?thesis
      by (auto simp: is_list_at_def key_reason_def)
  qed
qed

lemma validate_first_bad_key:
  assumes "rule1 p" "first_bad_key p = Some k"
  shows "validate_tick_payload p = (False, key_reason p k)"
  using assms
  by (simp add: validate_tick_payload_def rule1_def check_required_find first_bad_key_def)












lemma rule2_first_bad_key:
  "\<not> rule2 p \<Longrightarrow> \<exists>k. first_bad_key p = Some k"
  by (auto simp: first_bad_key_def rule2_def)

section \<open>Lemmas: the examples\<close>

lemma floor_three_halves: "\<lfloor>3 / 2 :: rat\<rfloor> = 1"
  by (rule floor_unique) simp_all

lemma scenario_validated: "validate_tick_payload scenario = (True, ''OK'')"
  by (simp add: payload_defs validator_defs)

lemma scenario_prices:
  "price_by_ticker exact_rt (JArr (rows_of scenario ''Market_Summary'')) = Inr [KStr ''X'' \<mapsto> 110]"
  by (simp add: payload_defs rows_of_def price_by_ticker_def runtime_defs)

lemma scenario_unrealized:
  "unrealized exact_rt (JArr (rows_of scenario ''Positions'')) (JArr (rows_of scenario ''Market_Summary''))
     = Inr (1, 100)"
  by (simp add: payload_defs rows_of_def unrealized_def price_by_ticker_def runtime_defs)

section \<open>The claims\<close>




text \<open>
  C2. \<open>get_trade_recommendations\<close> never raises on a validated payload, whatever the
  assistant does; and when no assistant credential is configured it returns the fixed
  fallback rationale with exactly one trade \<open>{action: STAY, ticker: t, quantity: 0}\<close>
  per element of \<open>Positions\<close>, in payload order, \<open>t\<close> being that element's ticker.
\<close>

theorem get_trade_recommendations_never_raises:
  assumes "validate_tick_payload payload = (True, ''OK'')"
  shows "\<exists>r. get_trade_recommendations api_key ai payload = Inr r \<and>
             (no_credential api_key \<longrightarrow>
                rationale r = JStr fallback_rationale \<and>
                list_all2 is_stay_trade_for (rows_of payload ''Positions'') (trades r))"
  using assms by (rule validated_recommendation)

theorem get_trade_recommendations_never_raises_witness:
  "validate_tick_payload scenario = (True, ''OK'') \<and>
   get_trade_recommendations None Call_fails scenario =
     Inr \<lparr>trades = [JObj [(''action'', JStr ''STAY''), (''ticker'', JStr ''X''), (''quantity'', JInt 0)]],
          rationale = JStr fallback_rationale\<rparr>"
proof -
  have v: "validate_tick_payload scenario = (True, ''OK'')"
    by (simp add: validate_tick_payload_def scenario_def tick_payload_def position_def market_row_def
     rows_of_def missing_field_def no_extra_def day_is_str_def)
  have r: "rows_of scenario ''Positions'' = [position (JStr ''X'') (JInt 10) (JInt 100)]"
    by (simp add: rows_of_def scenario_def tick_payload_def)
  from get_trade_recommendations_never_raises[OF v, of None Call_fails]
  obtain rec where g: "get_trade_recommendations None Call_fails scenario = Inr rec"
    and "rationale rec = JStr fallback_rationale"
    and "list_all2 is_stay_trade_for (rows_of scenario ''Positions'') (trades rec)"
    by (auto simp: no_credential_def)
  then have "rec = \<lparr>trades = [JObj [(''action'', JStr ''STAY''), (''ticker'', JStr ''X''), (''quantity'', JInt 0)]],
          rationale = JStr fallback_rationale\<rparr>"
    by (cases rec) (auto simp: r list_all2_Cons1 is_stay_trade_for_def position_def)
  with v g show ?thesis by simp
qed






text \<open>
  C5. A request passes authentication and validation and its tick reaches the remote
  submission (the profit-and-loss step completes). If the POST then fails at transport
  level, the exception leaves \<open>analyze_tick\<close>, the route answers with the failure reply
  of status 500 and no result, and the files keep what the tick wrote before: the
  positions file holds this tick's snapshot and the history has this tick's entry
  appended.
\<close>

theorem unreachable_endpoint_fails_request:
  assumes a: "require_apikey server_key req" and j: "is_json req" and b: "json_body req = Some payload"
    and v: "validate_tick_payload payload = (True, ''OK'')"
    and u: "unrealized rt (JArr (rows_of payload ''Positions'')) (JArr (rows_of payload ''Market_Summary''))
              = Inr pnl"
  shows "\<exists>snapshot r w'.
           build_positions_snapshot rt (JArr (rows_of payload ''Positions''))
             (JArr (rows_of payload ''Market_Summary'')) = Inr snapshot \<and>
           get_trade_recommendations api_key ai payload = Inr r \<and>
           analyze_tick rt api_key ai No_response payload trade_id w = (Inl TransportError, w') \<and>
           tick rt server_key api_key ai No_response trade_id req w = (Processing_error TransportError, w') \<and>
           status_of (fst (tick rt server_key api_key ai No_response trade_id req w)) = 500 \<and>
           files w' POSITIONS_FILE = Document (JArr snapshot) \<and>
           read_json_list TRADES_FILE w' =
             read_json_list TRADES_FILE w @
               [JObj [(''ai_recommendations'', JArr (trades r)), (''rationale'', rationale r)]]"
proof -
  from unrealized_snapshot[OF u] obtain snapshot where
    s: "build_positions_snapshot rt (JArr (rows_of payload ''Positions''))
          (JArr (rows_of payload ''Market_Summary'')) = Inr snapshot" ..
  from validated_recommendation[OF v] obtain r where
    g: "get_trade_recommendations api_key ai payload = Inr r" by blast
  obtain evaluated tot where pnl: "pnl = (evaluated, tot)" by (cases pnl)
  let ?w' = "log_event (Posted trade_id (trades r)) (before_post snapshot r w)"
  have at: "analyze_tick rt api_key ai No_response payload trade_id w = (Inl TransportError, ?w')"
    by (simp add: analyze_tick_steps[OF v u[unfolded pnl] s g] post_No_response)
  from validated_parts(1)[OF v] obtain kvs where p: "payload = JObj kvs" ..
  have t: "tick rt server_key api_key ai No_response trade_id req w = (Processing_error TransportError, ?w')"
    using a j b v at by (simp add: tick_def p)
  show ?thesis
    using s g at t
    by (intro exI[of _ snapshot] exI[of _ r] exI[of _ ?w'])
       (simp add: log_event_files log_event_read before_post_positions before_post_history)
qed

theorem unreachable_endpoint_fails_request_witness:
  "require_apikey ''secret'' (good_request scenario) \<and> is_json (good_request scenario) \<and>
   json_body (good_request scenario) = Some scenario \<and>
   validate_tick_payload scenario = (True, ''OK'') \<and>
   unrealized exact_rt (JArr (rows_of scenario ''Positions'')) (JArr (rows_of scenario ''Market_Summary''))
     = Inr (1, 100) \<and>
   (\<exists>snapshot r w'.
      build_positions_snapshot exact_rt (JArr (rows_of scenario ''Positions''))
        (JArr (rows_of scenario ''Market_Summary'')) = Inr snapshot \<and>
      get_trade_recommendations None Call_fails scenario = Inr r \<and>
      analyze_tick exact_rt None Call_fails No_response scenario ''t1'' empty_world = (Inl TransportError, w') \<and>
      tick exact_rt ''secret'' None Call_fails No_response ''t1'' (good_request scenario) empty_world =
        (Processing_error TransportError, w') \<and>
      status_of (fst (tick exact_rt ''secret'' None Call_fails No_response ''t1'' (good_request scenario)
                        empty_world)) = 500 \<and>
      files w' POSITIONS_FILE = Document (JArr snapshot) \<and>
      read_json_list TRADES_FILE w' =
        read_json_list TRADES_FILE (empty_world :: rat world) @
          [JObj [(''ai_recommendations'', JArr (trades r)), (''rationale'', rationale r)]])"
proof -
  have a: "require_apikey ''secret'' (good_request scenario)"
    by (simp add: require_apikey_def good_request_def py_strip_def is_space_def)
  have j: "is_json (good_request scenario)" and b: "json_body (good_request scenario) = Some scenario"
    by (simp_all add: good_request_def)
  from unreachable_endpoint_fails_request[OF a j b scenario_validated scenario_unrealized,
      of None Call_fails "''t1''" empty_world]
  show ?thesis using a j b scenario_validated scenario_unrealized by simp
qed




text \<open>
  C7, amended. On a tick of a validated payload whose profit-and-loss step completes and
  whose quantities are whole numbers, the first thing the tick does is to overwrite the
  positions file with one record per element of \<open>Positions\<close>, in order: ticker,
  quantity as an integer, purchase price as a float and the \<open>Market_Summary\<close> price
  of the ticker, or null when there is none; the Recommendation Client is consulted right
  after, whatever the assistant and the remote endpoint do later. When the
  profit-and-loss step raises, \<open>analyze_tick\<close> raises the same error and nothing is
  written: the files and the trace are left as they were.
\<close>

theorem snapshot_written_before_assistant:
  assumes v: "validate_tick_payload payload = (True, ''OK'')"
  shows "(unrealized rt (JArr (rows_of payload ''Positions'')) (JArr (rows_of payload ''Market_Summary''))
            = Inr pnl \<and>
          price_by_ticker rt (JArr (rows_of payload ''Market_Summary'')) = Inr prices \<and>
          list_all (whole_quantity rt) (rows_of payload ''Positions'') \<longrightarrow>
            (\<exists>snapshot later.
               map (enriched rt prices) (rows_of payload ''Positions'') = map Some snapshot \<and>
               trace (snd (analyze_tick rt api_key ai remote payload trade_id w)) =
                 trace w @ Wrote POSITIONS_FILE snapshot # Consulted_assistant # later)) \<and>
         (unrealized rt (JArr (rows_of payload ''Positions'')) (JArr (rows_of payload ''Market_Summary''))
            = Inl e \<longrightarrow>
            analyze_tick rt api_key ai remote payload trade_id w = (Inl e, w))"
proof (intro conjI impI)
  assume h: "unrealized rt (JArr (rows_of payload ''Positions'')) (JArr (rows_of payload ''Market_Summary''))
            = Inr pnl \<and>
          price_by_ticker rt (JArr (rows_of payload ''Market_Summary'')) = Inr prices \<and>
          list_all (whole_quantity rt) (rows_of payload ''Positions'')"
  then have u: "unrealized rt (JArr (rows_of payload ''Positions'')) (JArr (rows_of payload ''Market_Summary''))
              = Inr pnl"
    and pr: "price_by_ticker rt (JArr (rows_of payload ''Market_Summary'')) = Inr prices" by simp_all
  from unrealized_snapshot[OF u] obtain snapshot where
    s: "build_positions_snapshot rt (JArr (rows_of payload ''Positions''))
          (JArr (rows_of payload ''Market_Summary'')) = Inr snapshot" ..
  from validated_recommendation[OF v] obtain r where
    g: "get_trade_recommendations api_key ai payload = Inr r" by blast
  let ?w4 = "log_event (Posted trade_id (trades r)) (before_post snapshot r w)"
  have t4: "\<exists>later. trace ?w4 = trace w @ Wrote POSITIONS_FILE snapshot # Consulted_assistant # later"
    by (simp add: log_event_trace before_post_trace)
  have "\<exists>later. trace (snd (analyze_tick rt api_key ai remote payload trade_id w)) =
          trace w @ Wrote POSITIONS_FILE snapshot # Consulted_assistant # later"
  proof (cases "fst (post_trades_to_mothership [] [] remote empty_world)")
    case (Inl e)
    with t4 show ?thesis by (simp add: analyze_tick_snd[OF v u s g])
  next
    case (Inr resp)
    from reconcile_trace[of rt "JArr (rows_of payload ''Market_Summary'')" resp ?w4] t4
    show ?thesis by (auto simp: analyze_tick_snd[OF v u s g] Inr)
  qed
  with build_snapshot_enriched[OF s pr]
  show "\<exists>snapshot later.
               map (enriched rt prices) (rows_of payload ''Positions'') = map Some snapshot \<and>
               trace (snd (analyze_tick rt api_key ai remote payload trade_id w)) =
                 trace w @ Wrote POSITIONS_FILE snapshot # Consulted_assistant # later" by blast
next
  assume "unrealized rt (JArr (rows_of payload ''Positions'')) (JArr (rows_of payload ''Market_Summary''))
            = Inl e"
  then show "analyze_tick rt api_key ai remote payload trade_id w = (Inl e, w)"
    by (rule analyze_tick_early[OF v])
qed

theorem snapshot_written_before_assistant_witness:
  "validate_tick_payload scenario = (True, ''OK'') \<and>
   unrealized exact_rt (JArr (rows_of scenario ''Positions'')) (JArr (rows_of scenario ''Market_Summary''))
     = Inr (1, 100) \<and>
   price_by_ticker exact_rt (JArr (rows_of scenario ''Market_Summary'')) = Inr [KStr ''X'' \<mapsto> 110] \<and>
   list_all (whole_quantity exact_rt) (rows_of scenario ''Positions'') \<and>
   (\<exists>later.
      trace (snd (analyze_tick exact_rt None Call_fails ok_remote scenario ''t1'' empty_world)) =
        trace (empty_world :: rat world) @
          Wrote POSITIONS_FILE [JObj [(''ticker'', JStr ''X''), (''quantity'', JInt 10),
                                      (''purchase_price'', JFloat 100), (''current_price'', JFloat 110)]] #
          Consulted_assistant # later) \<and>
   validate_tick_payload null_quantity = (True, ''OK'') \<and>
   unrealized exact_rt (JArr (rows_of null_quantity ''Positions''))
     (JArr (rows_of null_quantity ''Market_Summary'')) = Inl TypeError \<and>
   analyze_tick exact_rt None Call_fails ok_remote null_quantity ''t1'' empty_world =
     (Inl TypeError, empty_world)"
proof -
  have whole: "list_all (whole_quantity exact_rt) (rows_of scenario ''Positions'')"
    by (simp add: payload_defs rows_of_def whole_quantity_def whole_number_def runtime_defs)
  have en: "map (enriched exact_rt [KStr ''X'' \<mapsto> 110]) (rows_of scenario ''Positions'') =
              [Some (JObj [(''ticker'', JStr ''X''), (''quantity'', JInt 10),
                           (''purchase_price'', JFloat 100), (''current_price'', JFloat 110)])]"
    by (simp add: payload_defs rows_of_def enriched_def runtime_defs)
  have nv: "validate_tick_payload null_quantity = (True, ''OK'')"
    by (simp add: payload_defs validator_defs)
  have nu: "unrealized exact_rt (JArr (rows_of null_quantity ''Positions''))
              (JArr (rows_of null_quantity ''Market_Summary'')) = Inl TypeError"
    by (simp add: payload_defs rows_of_def unrealized_def price_by_ticker_def runtime_defs)
  from snapshot_written_before_assistant[OF scenario_validated,
      of exact_rt "(1, 100)" "[KStr ''X'' \<mapsto> 110]" None Call_fails ok_remote "''t1''" empty_world]
    scenario_unrealized scenario_prices whole
  obtain snapshot later where
    m: "map (enriched exact_rt [KStr ''X'' \<mapsto> 110]) (rows_of scenario ''Positions'') = map Some snapshot"
    and t: "trace (snd (analyze_tick exact_rt None Call_fails ok_remote scenario ''t1'' empty_world)) =
              trace (empty_world :: rat world) @ Wrote POSITIONS_FILE snapshot # Consulted_assistant # later"
    by blast
  from m have "snapshot = [JObj [(''ticker'', JStr ''X''), (''quantity'', JInt 10),
                                 (''purchase_price'', JFloat 100), (''current_price'', JFloat 110)]]"
    unfolding en by (cases snapshot) auto
  with t have first: "\<exists>later.
      trace (snd (analyze_tick exact_rt None Call_fails ok_remote scenario ''t1'' empty_world)) =
        trace (empty_world :: rat world) @
          Wrote POSITIONS_FILE [JObj [(''ticker'', JStr ''X''), (''quantity'', JInt 10),
                                      (''purchase_price'', JFloat 100), (''current_price'', JFloat 110)]] #
          Consulted_assistant # later" by blast
  from snapshot_written_before_assistant[OF nv,
      where rt = exact_rt and e = TypeError and api_key = None and ai = Call_fails and remote = ok_remote
        and trade_id = "''t1''" and w = empty_world] nu
  have "analyze_tick exact_rt None Call_fails ok_remote null_quantity ''t1'' empty_world =
          (Inl TypeError, empty_world)" by blast
  with first show ?thesis using scenario_validated scenario_unrealized scenario_prices whole nv nu by simp
qed

theorem snapshot_counterexample:
  "validate_tick_payload null_quantity = (True, ''OK'') \<and>
   analyze_tick exact_rt None Call_fails ok_remote null_quantity ''t1'' empty_world = (Inl TypeError, empty_world) \<and>
   validate_tick_payload fractional = (True, ''OK'') \<and>
   take 2 (trace (snd (analyze_tick exact_rt None Call_fails ok_remote fractional ''t1'' empty_world))) =
     [Wrote POSITIONS_FILE [JObj [(''ticker'', JStr ''X''), (''quantity'', JInt 1),
                                  (''purchase_price'', JFloat 100), (''current_price'', JFloat 110)]],
      Consulted_assistant]"
  by (simp add: payload_defs validator_defs tick_defs runtime_defs List.map_filter_simps floor_three_halves)

text \<open>
  C8. \<open>_post_trades_to_mothership\<close> is to return an object annotated with the HTTP
  status for every response it receives. It does so for a body that is no JSON (the
  synthesized error body) and for a body that is a JSON object; on a body that is JSON
  but no object (here the empty array, with status 200) the annotation
  \<open>data["_http_status"] = 200\<close> raises TypeError.
\<close>

theorem post_trades_to_mothership_by_body:
  "fst (post_trades_to_mothership trade_id trs (Response code None) w) =
     Inr (JObj [(''error'', JStr (''Non-JSON response from mothership (status '' @ str_int code @ '')'')),
                (''_http_status'', JInt code)]) \<and>
   fst (post_trades_to_mothership trade_id trs (Response code (Some (JObj body))) w) =
     Inr (JObj (AList.update ''_http_status'' (JInt code) body)) \<and>
   fst (post_trades_to_mothership trade_id trs (Response 200 (Some (JArr []))) w) = Inl TypeError"
  by (simp add: post_trades_to_mothership_def non_json_body_def Let_def)

text \<open>
  C9, amended. \<open>validate_tick_payload\<close> checks the five rules of the specification in
  their order and stops at the first that fails, with that rule's reason. When the
  second rule fails, the message is the reason for the first of \<open>Positions\<close>,
  \<open>Market_Summary\<close> and \<open>market_history\<close>, in that order, that is missing
  (\<open>Missing required field:\<close> and the key) or holds no list (the key and
  \<open>must be a list\<close>). A payload without the \<open>market_history\<close> key always fails;
  the message names that field, \<open>Missing required field: market_history\<close>, when
  \<open>Positions\<close> and \<open>Market_Summary\<close> are present and are lists. A request whose
  payload does not pass validation leaves the files and the trace as they were.
\<close>

theorem validation_rules_in_order:
  "(\<not> rule1 p \<longrightarrow> validate_tick_payload p = (False, ''Payload must be a JSON object'')) \<and>
   (rule1 p \<and> \<not> rule2 p \<longrightarrow>
      (\<exists>k. first_bad_key p = Some k \<and> validate_tick_payload p = (False, key_reason p k))) \<and>
   (rule1 p \<and> rule2 p \<and> \<not> rule3 p \<longrightarrow>
      (\<exists>idx detail. validate_tick_payload p = (False, ''Positions'' @ ''['' @ str_nat idx @ detail))) \<and>
   (rule1 p \<and> rule2 p \<and> rule3 p \<and> \<not> rule4 p \<longrightarrow>
      (\<exists>idx detail. validate_tick_payload p = (False, ''Market_Summary'' @ ''['' @ str_nat idx @ detail))) \<and>
   (rule1 p \<and> rule2 p \<and> rule3 p \<and> rule4 p \<and> \<not> rule5 p \<longrightarrow>
      (\<exists>idx detail. validate_tick_payload p = (False, ''market_history'' @ ''['' @ str_nat idx @ detail)) \<or>
      validate_tick_payload p = (False, ''market_history.day must be a date string'')) \<and>
   (rule1 p \<and> rule2 p \<and> rule3 p \<and> rule4 p \<and> rule5 p \<longrightarrow> validate_tick_payload p = (True, ''OK'')) \<and>
   (\<not> has_key p ''market_history'' \<longrightarrow> fst (validate_tick_payload p) = False) \<and>
   (is_list_at p ''Positions'' \<and> is_list_at p ''Market_Summary'' \<and> \<not> has_key p ''market_history'' \<longrightarrow>
      validate_tick_payload p = (False, ''Missing required field: market_history'')) \<and>
   ((case json_body req of None \<Rightarrow> True | Some b \<Rightarrow> \<not> fst (validate_tick_payload b)) \<longrightarrow>
      snd (tick rt server_key api_key ai remote trade_id req w) = w)"
proof -
  have pinned: "\<exists>k. first_bad_key p = Some k \<and> validate_tick_payload p = (False, key_reason p k)"
    if "rule1 p \<and> \<not> rule2 p"
  proof -
    from that have r1: "rule1 p" and r2: "\<not> rule2 p" by simp_all
    from rule2_first_bad_key[OF r2] obtain k where k: "first_bad_key p = Some k" ..
    from validate_first_bad_key[OF r1 k] k show ?thesis by blast
  qed
  from pinned validate_rule1[of p] validate_rule3[of p] validate_rule4[of p]
    validate_rule5[of p] validate_all_rules[of p] validate_without_history[of p]
    validate_names_history[of p] tick_invalid[of req rt server_key api_key ai remote trade_id w]
  show ?thesis by blast
qed

theorem validation_rules_in_order_witness:
  "rule1 without_history \<and> \<not> rule2 without_history \<and>
   first_bad_key without_history = Some ''market_history'' \<and>
   is_list_at without_history ''Positions'' \<and> is_list_at without_history ''Market_Summary'' \<and>
   \<not> has_key without_history ''market_history'' \<and>
   validate_tick_payload without_history = (False, ''Missing required field: market_history'') \<and>
   snd (tick exact_rt ''secret'' None Call_fails ok_remote ''t1'' (good_request without_history) empty_world)
     = empty_world \<and>
   rule1 scenario \<and> rule2 scenario \<and> rule3 scenario \<and> rule4 scenario \<and> rule5 scenario \<and>
   validate_tick_payload scenario = (True, ''OK'')"
proof -
  have h: "rule1 without_history" "\<not> rule2 without_history"
    "is_list_at without_history ''Positions''" "is_list_at without_history ''Market_Summary''"
    "\<not> has_key without_history ''market_history''"
    by (simp_all add: without_history_def rule1_def rule2_def is_list_at_def)
  have f: "first_bad_key without_history = Some ''market_history''"
    by (simp add: without_history_def first_bad_key_def is_list_at_def)
  have kr: "key_reason without_history ''market_history'' = ''Missing required field: market_history''"
    by (simp add: without_history_def key_reason_def)
  have s: "rule1 scenario" "rule2 scenario" "rule3 scenario" "rule4 scenario" "rule5 scenario"
    by (simp_all add: payload_defs rule1_def rule2_def rule3_def rule4_def rule5_def is_list_at_def
          rows_of_def)
  have b: "json_body (good_request without_history) = Some without_history"
    by (simp add: good_request_def)
  from validation_rules_in_order[of without_history "good_request without_history" exact_rt
      "''secret''" None Call_fails ok_remote "''t1''" empty_world] h f b
  have "validate_tick_payload without_history = (False, key_reason without_history ''market_history'')"
    and "snd (tick exact_rt ''secret'' None Call_fails ok_remote ''t1'' (good_request without_history) empty_world)
          = empty_world"
    by simp_all
  moreover from validation_rules_in_order[of scenario "good_request scenario" exact_rt
      "''secret''" None Call_fails ok_remote "''t1''" empty_world] s
  have "validate_tick_payload scenario = (True, ''OK'')" by blast
  ultimately show ?thesis using h f s kr by simp
qed

theorem validate_counterexample:
  "is_dict (JObj [] :: rat json) \<and> \<not> has_key (JObj [] :: rat json) ''market_history'' \<and>
   validate_tick_payload (JObj [] :: rat json) = (False, ''Missing required field: Positions'')"
  by (simp add: validator_defs)




end
